theory Spec2Isabelle
  imports Complex_Main
begin

section \<open>Lampshade pattern generator: data model\<close>

text \<open>
  The TypeScript type \<^verbatim>\<open>number\<close> is modelled by \<^typ>\<open>real\<close>: every theorem below is
  about the exact real-number reading of the arithmetic, not about the rounding of IEEE
  doubles. The one place where the source can leave the finite numbers for real inputs (the
  quotient \<^verbatim>\<open>0 / 0\<close> in the sector angle) is a branch of its own in the model.
\<close>

datatype Unit = In | Cm | Px

datatype Shape = Cone | Empire | Drum

record LampshadeDimensions =
  topDiameter :: real
  bottomDiameter :: real
  height :: real
  unit :: Unit
  shape :: Shape

text \<open>
  \<^verbatim>\<open>viewBox\<close> is the string \<^verbatim>\<open>`${minX} ${minY} ${width} ${height}`\<close>; the model keeps its four
  numbers. \<^verbatim>\<open>pathD\<close> is the string of SVG path commands; the model keeps the commands:
  \<^verbatim>\<open>M x y\<close>, \<^verbatim>\<open>L x y\<close>, \<^verbatim>\<open>A rx ry rotation largeArcFlag sweepFlag x y\<close> and \<^verbatim>\<open>Z\<close>.
\<close>

datatype ViewBox = ViewBox real real real real

datatype PathCommand =
    MoveTo real real
  | LineTo real real
  | ArcTo real real real nat nat real real
  | ClosePath

text \<open>
  \<^verbatim>\<open>PatternData = ConePatternData | DrumPatternData\<close>. The arguments are, in this order,
  \<^verbatim>\<open>circumference, viewBox, width, height, dimensions\<close> for a drum and
  \<^verbatim>\<open>pathD, viewBox, width, height, dimensions, slantHeight, topArcLength, bottomArcLength\<close>
  for a cone. \<open>ConePatternNaN\<close> is the cone record whose \<^verbatim>\<open>pathD\<close>, \<^verbatim>\<open>viewBox\<close>,
  \<^verbatim>\<open>width\<close> and \<^verbatim>\<open>height\<close> are built from \<^verbatim>\<open>NaN\<close>; it keeps the fields that are still numbers:
  \<^verbatim>\<open>dimensions, slantHeight, topArcLength, bottomArcLength\<close>.
\<close>

datatype PatternData =
    DrumPatternData real ViewBox real real LampshadeDimensions
  | ConePatternData "PathCommand list" ViewBox real real LampshadeDimensions real real real
  | ConePatternNaN LampshadeDimensions real real real

text \<open>The two \<^verbatim>\<open>throw new Error(message)\<close> sites of \<^verbatim>\<open>calculatePatternData\<close>.\<close>

datatype error = Error string

definition InvalidTaper :: error where
  "InvalidTaper = Error ''Bottom diameter must be larger than top diameter.''"

definition AngleOverflow :: error where
  "AngleOverflow =
     Error ''The resulting pattern angle is too large. This geometry is not possible.''"

section \<open>The pattern geometry calculator (patternCalculator.ts)\<close>

text \<open>The local constants of the cone/empire branch, each as a function of the input.\<close>

definition rTop :: "LampshadeDimensions \<Rightarrow> real" where
  "rTop dims = topDiameter dims / 2"

definition rBottom :: "LampshadeDimensions \<Rightarrow> real" where
  "rBottom dims = bottomDiameter dims / 2"

definition verticalHeight :: "LampshadeDimensions \<Rightarrow> real" where
  "verticalHeight dims = height dims"

definition slantHeight :: "LampshadeDimensions \<Rightarrow> real" where
  "slantHeight dims = sqrt ((verticalHeight dims)\<^sup>2 + (rBottom dims - rTop dims)\<^sup>2)"

definition LTop :: "LampshadeDimensions \<Rightarrow> real" where
  "LTop dims = (slantHeight dims * rTop dims) / (rBottom dims - rTop dims)"

definition LBottom :: "LampshadeDimensions \<Rightarrow> real" where
  "LBottom dims = (slantHeight dims * rBottom dims) / (rBottom dims - rTop dims)"

definition angle :: "LampshadeDimensions \<Rightarrow> real" where
  "angle dims = (2 * pi * rBottom dims) / LBottom dims"

definition startAngle :: "LampshadeDimensions \<Rightarrow> real" where
  "startAngle dims = - angle dims / 2"

definition endAngle :: "LampshadeDimensions \<Rightarrow> real" where
  "endAngle dims = angle dims / 2"

definition p1x :: "LampshadeDimensions \<Rightarrow> real" where
  "p1x dims = LTop dims * cos (startAngle dims)"

definition p1y :: "LampshadeDimensions \<Rightarrow> real" where
  "p1y dims = LTop dims * sin (startAngle dims)"

definition p2x :: "LampshadeDimensions \<Rightarrow> real" where
  "p2x dims = LBottom dims * cos (startAngle dims)"

definition p2y :: "LampshadeDimensions \<Rightarrow> real" where
  "p2y dims = LBottom dims * sin (startAngle dims)"

definition p3x :: "LampshadeDimensions \<Rightarrow> real" where
  "p3x dims = LBottom dims * cos (endAngle dims)"

definition p3y :: "LampshadeDimensions \<Rightarrow> real" where
  "p3y dims = LBottom dims * sin (endAngle dims)"

definition p4x :: "LampshadeDimensions \<Rightarrow> real" where
  "p4x dims = LTop dims * cos (endAngle dims)"

definition p4y :: "LampshadeDimensions \<Rightarrow> real" where
  "p4y dims = LTop dims * sin (endAngle dims)"

definition largeArcFlag :: "LampshadeDimensions \<Rightarrow> nat" where
  "largeArcFlag dims = (if angle dims > pi then 1 else 0)"

definition pathD :: "LampshadeDimensions \<Rightarrow> PathCommand list" where
  "pathD dims =
     [MoveTo (p1x dims) (p1y dims),
      LineTo (p2x dims) (p2y dims),
      ArcTo (LBottom dims) (LBottom dims) 0 (largeArcFlag dims) 1 (p3x dims) (p3y dims),
      LineTo (p4x dims) (p4y dims),
      ArcTo (LTop dims) (LTop dims) 0 (largeArcFlag dims) 0 (p1x dims) (p1y dims),
      ClosePath]"

text \<open>
  \<^verbatim>\<open>allX\<close> and \<^verbatim>\<open>allY\<close> after the conditional \<^verbatim>\<open>push\<close>: the four corner points, and the
  point \<^verbatim>\<open>(LBottom, 0)\<close> when \<^verbatim>\<open>angle < Math.PI\<close>.
\<close>

definition allX :: "LampshadeDimensions \<Rightarrow> real list" where
  "allX dims =
     [p1x dims, p2x dims, p3x dims, p4x dims] @ (if angle dims < pi then [LBottom dims] else [])"

definition allY :: "LampshadeDimensions \<Rightarrow> real list" where
  "allY dims =
     [p1y dims, p2y dims, p3y dims, p4y dims] @ (if angle dims < pi then [0] else [])"

text \<open>
  \<^verbatim>\<open>Math.min(...xs)\<close> and \<^verbatim>\<open>Math.max(...xs)\<close> on a list of numbers. Both are only called on
  lists of four or five elements; the empty case (\<^verbatim>\<open>Infinity\<close> and \<^verbatim>\<open>-Infinity\<close> in
  JavaScript) does not occur and has no equation.
\<close>

fun Math_min :: "real list \<Rightarrow> real" where
  "Math_min [x] = x"
| "Math_min (x # y # ys) = min x (Math_min (y # ys))"

fun Math_max :: "real list \<Rightarrow> real" where
  "Math_max [x] = x"
| "Math_max (x # y # ys) = max x (Math_max (y # ys))"

definition minX :: "LampshadeDimensions \<Rightarrow> real" where
  "minX dims = Math_min (allX dims)"

definition minY :: "LampshadeDimensions \<Rightarrow> real" where
  "minY dims = Math_min (allY dims)"

definition maxX :: "LampshadeDimensions \<Rightarrow> real" where
  "maxX dims = Math_max (allX dims)"

definition maxY :: "LampshadeDimensions \<Rightarrow> real" where
  "maxY dims = Math_max (allY dims)"

definition coneWidth :: "LampshadeDimensions \<Rightarrow> real" where
  "coneWidth dims = maxX dims - minX dims"

definition coneHeight :: "LampshadeDimensions \<Rightarrow> real" where
  "coneHeight dims = maxY dims - minY dims"

text \<open>
  \<^verbatim>\<open>calculatePatternData\<close>. The branches follow the source in its order: equal diameters
  give the drum rectangle whatever \<^verbatim>\<open>dims.shape\<close> says; otherwise \<^verbatim>\<open>rBottom <= rTop\<close>
  throws; otherwise the angle is computed and \<^verbatim>\<open>angle > 2 * Math.PI\<close> throws.

  After the taper check \<^verbatim>\<open>rBottom - rTop\<close> is positive, so the two quotients \<^verbatim>\<open>LTop\<close> and
  \<^verbatim>\<open>LBottom\<close> are finite. \<^verbatim>\<open>LBottom\<close> is \<^verbatim>\<open>0\<close> exactly when \<^verbatim>\<open>rBottom\<close> is, and then the
  angle is \<^verbatim>\<open>0 / 0 = NaN\<close>: both comparisons with \<^verbatim>\<open>NaN\<close> are false, nothing is thrown,
  and every number derived from the angle is \<^verbatim>\<open>NaN\<close>. That is the third branch.
\<close>

definition calculatePatternData :: "LampshadeDimensions \<Rightarrow> error + PatternData" where
  "calculatePatternData dims =
     (if topDiameter dims = bottomDiameter dims then
        (let circumference = pi * bottomDiameter dims;
             width = circumference;
             height' = height dims
         in Inr (DrumPatternData circumference (ViewBox 0 0 width height') width height' dims))
      else if rBottom dims \<le> rTop dims then Inl InvalidTaper
      else if LBottom dims = 0 then
        Inr (ConePatternNaN dims (slantHeight dims)
               (pi * topDiameter dims) (pi * bottomDiameter dims))
      else if angle dims > 2 * pi then Inl AngleOverflow
      else
        Inr (ConePatternData (pathD dims)
               (ViewBox (minX dims) (minY dims) (coneWidth dims) (coneHeight dims))
               (coneWidth dims) (coneHeight dims) dims (slantHeight dims)
               (pi * topDiameter dims) (pi * bottomDiameter dims)))"

text \<open>\<^verbatim>\<open>patternData.width\<close> and \<^verbatim>\<open>patternData.height\<close>; \<open>None\<close> stands for \<^verbatim>\<open>NaN\<close>.\<close>

fun patternWidth :: "PatternData \<Rightarrow> real option" where
  "patternWidth (DrumPatternData c vb w h d) = Some w"
| "patternWidth (ConePatternData p vb w h d s t b) = Some w"
| "patternWidth (ConePatternNaN d s t b) = None"

fun patternHeight :: "PatternData \<Rightarrow> real option" where
  "patternHeight (DrumPatternData c vb w h d) = Some h"
| "patternHeight (ConePatternData p vb w h d s t b) = Some h"
| "patternHeight (ConePatternNaN d s t b) = None"

fun patternUnit :: "PatternData \<Rightarrow> Unit" where
  "patternUnit (DrumPatternData c vb w h d) = unit d"
| "patternUnit (ConePatternData p vb w h d s t b) = unit d"
| "patternUnit (ConePatternNaN d s t b) = unit d"

section \<open>The page tiler (handlePrint in PatternPreview.tsx)\<close>

definition PPI :: real where
  "PPI = 96"

fun convertToPx :: "real \<Rightarrow> Unit \<Rightarrow> real" where
  "convertToPx v In = v * PPI"
| "convertToPx v Cm = (v / 2.54) * PPI"
| "convertToPx v Px = v"

datatype PaperSize = A4 | Letter

text \<open>\<^verbatim>\<open>PAPER_SIZES[paperSize]\<close>, as the pair of \<^verbatim>\<open>width\<close> and \<^verbatim>\<open>height\<close> in inches.\<close>

fun PAPER_SIZES :: "PaperSize \<Rightarrow> real \<times> real" where
  "PAPER_SIZES A4 = (8.27, 11.69)"
| "PAPER_SIZES Letter = (8.5, 11)"

definition PRINT_MARGIN_IN :: real where
  "PRINT_MARGIN_IN = 0.5"

definition printableWidthPx :: "PaperSize \<Rightarrow> real" where
  "printableWidthPx paperSize = (fst (PAPER_SIZES paperSize) - 2 * PRINT_MARGIN_IN) * PPI"

definition printableHeightPx :: "PaperSize \<Rightarrow> real" where
  "printableHeightPx paperSize = (snd (PAPER_SIZES paperSize) - 2 * PRINT_MARGIN_IN) * PPI"

text \<open>
  An alignment mark is the \<^verbatim>\<open>div\<close> of class \<^verbatim>\<open>alignment-mark-top\<close>, \<^verbatim>\<open>-bottom\<close>, \<^verbatim>\<open>-left\<close>
  or \<^verbatim>\<open>-right\<close> with the text \<^verbatim>\<open>Join to R<r>, C<c>\<close>: the model keeps the edge and the two
  numbers as they are printed. The printed numbers are the one-based labels that the
  assembly info of a page shows (\<^verbatim>\<open>(Row row + 1, Col col + 1)\<close>), so the mark names the
  tile with the loop indices \<open>(r - 1, c - 1)\<close>.
\<close>

datatype Edge = Top | Bottom | Left | Right

datatype Mark = Mark Edge int int

fun markTarget :: "Mark \<Rightarrow> int \<times> int" where
  "markTarget (Mark e r c) = (r - 1, c - 1)"

fun markEdge :: "Mark \<Rightarrow> Edge" where
  "markEdge (Mark e r c) = e"

text \<open>
  One \<^verbatim>\<open>print-page\<close> element: the page number and the total of the page info, the row and
  column of the assembly info, the \<^verbatim>\<open>left\<close> and \<^verbatim>\<open>top\<close> style of the SVG wrapper (in
  pixels) and the alignment marks in the order they are appended.
\<close>

record PrintPage =
  pageNumber :: int
  pageTotal :: int
  assemblyRow :: int
  assemblyCol :: int
  wrapperLeft :: real
  wrapperTop :: real
  marks :: "Mark list"

text \<open>The body of the inner loop, for the loop indices \<open>row\<close> and \<open>col\<close>.\<close>

definition createPage :: "int \<Rightarrow> int \<Rightarrow> real \<Rightarrow> real \<Rightarrow> int \<Rightarrow> int \<Rightarrow> PrintPage" where
  "createPage rows cols pageW pageH row col =
     \<lparr>pageNumber = row * cols + col + 1,
      pageTotal = cols * rows,
      assemblyRow = row + 1,
      assemblyCol = col + 1,
      wrapperLeft = - (of_int col * pageW),
      wrapperTop = - (of_int row * pageH),
      marks =
        (if row > 0 then [Mark Top row (col + 1)] else []) @
        (if row < rows - 1 then [Mark Bottom (row + 2) (col + 1)] else []) @
        (if col > 0 then [Mark Left (row + 1) col] else []) @
        (if col < cols - 1 then [Mark Right (row + 1) (col + 2)] else [])\<rparr>"

text \<open>
  The two nested \<^verbatim>\<open>for\<close> loops; the last argument is the list of pages appended to the
  print container so far.
\<close>

function colLoop ::
  "int \<Rightarrow> int \<Rightarrow> real \<Rightarrow> real \<Rightarrow> int \<Rightarrow> int \<Rightarrow> PrintPage list \<Rightarrow> PrintPage list" where
  "colLoop rows cols pageW pageH row col container =
     (if col < cols
      then colLoop rows cols pageW pageH row (col + 1)
             (container @ [createPage rows cols pageW pageH row col])
      else container)"
  by pat_completeness auto
termination
  by (relation "measure (\<lambda>(rows, cols, pageW, pageH, row, col, container). nat (cols - col))")
    auto

function rowLoop ::
  "int \<Rightarrow> int \<Rightarrow> real \<Rightarrow> real \<Rightarrow> int \<Rightarrow> PrintPage list \<Rightarrow> PrintPage list" where
  "rowLoop rows cols pageW pageH row container =
     (if row < rows
      then rowLoop rows cols pageW pageH (row + 1)
             (colLoop rows cols pageW pageH row 0 container)
      else container)"
  by pat_completeness auto
termination
  by (relation "measure (\<lambda>(rows, cols, pageW, pageH, row, container). nat (rows - row))")
    auto

text \<open>
  What \<^verbatim>\<open>handlePrint\<close> does: it returns at once, it alerts the message and returns, or it
  prints the container of pages.
\<close>

datatype PrintOutcome = Returned | Alert string | Printed "PrintPage list"

definition PatternTooLarge :: PrintOutcome where
  "PatternTooLarge =
     Alert (''This pattern is too large to print automatically (more than 50 pages). '' @
            ''Please download the SVG and use a vector editor for tiling.'')"

text \<open>Step 3, the grid calculation: \<^verbatim>\<open>Math.ceil\<close> of the two quotients.\<close>

definition gridCols :: "real \<Rightarrow> real \<Rightarrow> int" where
  "gridCols patternWidthPx pageW = \<lceil>patternWidthPx / pageW\<rceil>"

definition gridRows :: "real \<Rightarrow> real \<Rightarrow> int" where
  "gridRows patternHeightPx pageH = \<lceil>patternHeightPx / pageH\<rceil>"

text \<open>
  Steps 3 to 6 of \<^verbatim>\<open>handlePrint\<close>, as a function of the four pixel sizes that step 2
  computes: the grid, the safety break, the loops.
\<close>

definition printPages :: "real \<Rightarrow> real \<Rightarrow> real \<Rightarrow> real \<Rightarrow> PrintOutcome" where
  "printPages patternWidthPx patternHeightPx pageW pageH =
     (let cols = gridCols patternWidthPx pageW;
          rows = gridRows patternHeightPx pageH
      in if cols * rows > 50 then PatternTooLarge
         else Printed (rowLoop rows cols pageW pageH 0 []))"

text \<open>
  \<^verbatim>\<open>handlePrint\<close>, from the component state it reads: \<^verbatim>\<open>patternData\<close> (or \<^verbatim>\<open>null\<close>),
  whether \<^verbatim>\<open>svgRef.current\<close> is set, and \<^verbatim>\<open>paperSize\<close>. The print unit only changes the
  "Total Size" text of the page info, which the model leaves out. With a width and height
  of \<^verbatim>\<open>NaN\<close> both \<^verbatim>\<open>cols\<close> and \<^verbatim>\<open>rows\<close> are \<^verbatim>\<open>NaN\<close>, every comparison is false, and an empty
  container is printed.
\<close>

definition handlePrint :: "PatternData option \<Rightarrow> bool \<Rightarrow> PaperSize \<Rightarrow> PrintOutcome" where
  "handlePrint patternData svgRefCurrent paperSize =
     (case patternData of
        None \<Rightarrow> Returned
      | Some pd \<Rightarrow>
          if \<not> svgRefCurrent then Returned
          else (case (patternWidth pd, patternHeight pd) of
                  (Some w, Some h) \<Rightarrow>
                    printPages (convertToPx w (patternUnit pd)) (convertToPx h (patternUnit pd))
                      (printableWidthPx paperSize) (printableHeightPx paperSize)
                | _ \<Rightarrow> Printed []))"

section \<open>Notions used to state the properties\<close>

text \<open>\<^verbatim>\<open>initialDimensions\<close> of the constants module: the form's start values.\<close>

definition initialDimensions :: LampshadeDimensions where
  "initialDimensions =
     \<lparr>topDiameter = 20, bottomDiameter = 30, height = 20, unit = Cm, shape = Cone\<rparr>"

text \<open>
  The points of the closed path that \<open>pathD\<close> draws: the two arcs about the origin with the
  radii \<open>LTop\<close> and \<open>LBottom\<close>, swept from \<open>startAngle\<close> to \<open>endAngle\<close> through the angle 0
  (the large-arc and sweep flags of the two \<^verbatim>\<open>A\<close> commands select these arcs), and the two
  straight edges between the radii at \<open>startAngle\<close> and at \<open>endAngle\<close>.
\<close>

definition sectorBoundary :: "LampshadeDimensions \<Rightarrow> (real \<times> real) set" where
  "sectorBoundary d =
     {(r * cos a, r * sin a) | r a.
        ((r = LTop d \<or> r = LBottom d) \<and> startAngle d \<le> a \<and> a \<le> endAngle d)
      \<or> (LTop d \<le> r \<and> r \<le> LBottom d \<and> (a = startAngle d \<or> a = endAngle d))}"

text \<open>A point lies in the rectangle that a view box \<^verbatim>\<open>minX minY width height\<close> shows.\<close>

fun inViewBox :: "ViewBox \<Rightarrow> real \<times> real \<Rightarrow> bool" where
  "inViewBox (ViewBox x y w h) (px, py) \<longleftrightarrow>
     x \<le> px \<and> px \<le> x + w \<and> y \<le> py \<and> py \<le> y + h"

text \<open>
  A view box is the smallest axis-parallel box around a set of points: it contains every
  point, and each of its four sides passes through a point of the set.
\<close>

fun tightBox :: "ViewBox \<Rightarrow> (real \<times> real) set \<Rightarrow> bool" where
  "tightBox (ViewBox x y w h) S \<longleftrightarrow>
     (\<forall>p \<in> S. inViewBox (ViewBox x y w h) p)
     \<and> (\<exists>p \<in> S. fst p = x) \<and> (\<exists>p \<in> S. fst p = x + w)
     \<and> (\<exists>p \<in> S. snd p = y) \<and> (\<exists>p \<in> S. snd p = y + h)"

text \<open>The edge of the neighbouring page that meets a given edge.\<close>

fun opposite :: "Edge \<Rightarrow> Edge" where
  "opposite Top = Bottom"
| "opposite Bottom = Top"
| "opposite Left = Right"
| "opposite Right = Left"

declare colLoop.simps [simp del] rowLoop.simps [simp del]

section \<open>Auxiliary facts\<close>

subsection \<open>Bounds on \<open>pi\<close>\<close>

text \<open>
  The partial sums of the alternating arctangent series enclose the arctangent; with
  Machin's formula four terms for \<open>arctan (1/5)\<close> and two for \<open>arctan (1/239)\<close> give
  \<open>pi\<close> to three decimals.
\<close>

lemma arctan_enclosure:
  fixes x :: real
  assumes "0 < x" "x \<le> 1"
  shows "(\<Sum>i<2*n. (- 1)^i * (1 / real (i * 2 + 1) * x ^ (i * 2 + 1))) \<le> arctan x"
    and "arctan x \<le> (\<Sum>i<2*n+1. (- 1)^i * (1 / real (i * 2 + 1) * x ^ (i * 2 + 1)))"
proof -
  have ax: "\<bar>x\<bar> \<le> 1" using assms by simp
  have pos: "0 < 1 / real (0 * 2 + 1) * x ^ (0 * 2 + 1)" using assms by simp
  from summable_Leibniz(2)[OF zeroseq_arctan_series[OF ax] monoseq_arctan_series[OF ax]] pos
  have "(\<Sum>i. (- 1)^i * (1 / real (i * 2 + 1) * x ^ (i * 2 + 1)))
      \<in> {\<Sum>i<2*n. (- 1)^i * (1 / real (i * 2 + 1) * x ^ (i * 2 + 1)) ..
          \<Sum>i<2*n+1. (- 1)^i * (1 / real (i * 2 + 1) * x ^ (i * 2 + 1))}"
    by blast
  then show "(\<Sum>i<2*n. (- 1)^i * (1 / real (i * 2 + 1) * x ^ (i * 2 + 1))) \<le> arctan x"
    and "arctan x \<le> (\<Sum>i<2*n+1. (- 1)^i * (1 / real (i * 2 + 1) * x ^ (i * 2 + 1)))"
    using arctan_series[OF ax] by simp_all
qed

lemma pi_between: "3.1415 < pi" "pi < 3.1417"
proof -
  have l5: "(\<Sum>i<2*2. (- 1)^i * (1 / real (i * 2 + 1) * (1/5::real) ^ (i * 2 + 1)))
              \<le> arctan (1/5)"
    by (rule arctan_enclosure(1)) simp_all
  have u5: "arctan (1/5)
              \<le> (\<Sum>i<2*1+1. (- 1)^i * (1 / real (i * 2 + 1) * (1/5::real) ^ (i * 2 + 1)))"
    by (rule arctan_enclosure(2)) simp_all
  have l239: "(\<Sum>i<2*1. (- 1)^i * (1 / real (i * 2 + 1) * (1/239::real) ^ (i * 2 + 1)))
              \<le> arctan (1/239)"
    by (rule arctan_enclosure(1)) simp_all
  have u239: "arctan (1/239)
              \<le> (\<Sum>i<2*0+1. (- 1)^i * (1 / real (i * 2 + 1) * (1/239::real) ^ (i * 2 + 1)))"
    by (rule arctan_enclosure(2)) simp_all
  have l5': "(1/5 - 1/375 + 1/15625 - 1/546875 :: real) \<le> arctan (1/5)"
    using l5 by (simp add: lessThan_nat_numeral lessThan_Suc power_divide)
  have u5': "arctan (1/5) \<le> (1/5 - 1/375 + 1/15625 :: real)"
    using u5 by (simp add: lessThan_nat_numeral lessThan_Suc power_divide)
  have l239': "(1/239 - 1/(3 * 239^3) :: real) \<le> arctan (1/239)"
    using l239 by (simp add: lessThan_nat_numeral lessThan_Suc power_divide)
  have u239': "arctan (1/239) \<le> (1/239 :: real)"
    using u239 by (simp add: lessThan_nat_numeral lessThan_Suc power_divide)
  have m: "pi = 16 * arctan (1/5) - 4 * arctan (1/239)"
    using machin by simp
  show "3.1415 < pi" using l5' u239' unfolding m by simp
  show "pi < 3.1417" using u5' l239' unfolding m by simp
qed

subsection \<open>The slant height, the radii and the angle\<close>

lemma slantHeight_pos: "rTop d < rBottom d \<Longrightarrow> 0 < slantHeight d"
  unfolding slantHeight_def
  by (simp add: sum_power2_gt_zero_iff)

lemma slantHeight_ge: "rBottom d - rTop d \<le> slantHeight d"
  unfolding slantHeight_def
  by (rule real_le_rsqrt) simp


lemma LBottom_minus_LTop:
  assumes "rTop d \<noteq> rBottom d"
  shows "LBottom d - LTop d = slantHeight d"
proof -
  have nz: "rBottom d - rTop d \<noteq> 0" using assms by simp
  have "LBottom d - LTop d = slantHeight d * (rBottom d - rTop d) / (rBottom d - rTop d)"
    unfolding LBottom_def LTop_def by (simp add: diff_divide_distrib right_diff_distrib)
  also have "\<dots> = slantHeight d" using nz by simp
  finally show ?thesis .
qed

lemma LBottom_zero_iff:
  assumes "rTop d < rBottom d"
  shows "LBottom d = 0 \<longleftrightarrow> bottomDiameter d = 0"
  using assms slantHeight_pos[OF assms] unfolding LBottom_def rBottom_def by auto

lemma angle_eq:
  assumes "rTop d < rBottom d" "bottomDiameter d \<noteq> 0"
  shows "angle d = 2 * pi * (rBottom d - rTop d) / slantHeight d"
proof -
  have "rBottom d \<noteq> 0" using assms(2) by (simp add: rBottom_def)
  then show ?thesis
    using assms(1) slantHeight_pos[OF assms(1)] unfolding angle_def LBottom_def
    by (simp add: field_simps)
qed

lemma angle_le_two_pi:
  assumes "rTop d < rBottom d" "bottomDiameter d \<noteq> 0"
  shows "angle d \<le> 2 * pi"
proof -
  have "2 * pi * (rBottom d - rTop d) / slantHeight d \<le> 2 * pi * slantHeight d / slantHeight d"
    using slantHeight_ge[of d] slantHeight_pos[OF assms(1)]
    by (intro divide_right_mono mult_left_mono) simp_all
  then show ?thesis
    using slantHeight_pos[OF assms(1)] by (simp add: angle_eq[OF assms])
qed



text \<open>A tapered input with a bottom diameter other than 0 gets the cone record.\<close>

lemma cone_result:
  assumes "topDiameter d < bottomDiameter d" "bottomDiameter d \<noteq> 0"
  shows "calculatePatternData d =
         Inr (ConePatternData (pathD d)
               (ViewBox (minX d) (minY d) (coneWidth d) (coneHeight d))
               (coneWidth d) (coneHeight d) d (slantHeight d)
               (pi * topDiameter d) (pi * bottomDiameter d))"
proof -
  have r: "rTop d < rBottom d" using assms(1) by (simp add: rTop_def rBottom_def)
  have "LBottom d \<noteq> 0" using LBottom_zero_iff[OF r] assms(2) by simp
  moreover have "\<not> angle d > 2 * pi" using angle_le_two_pi[OF r assms(2)] by simp
  ultimately show ?thesis using assms(1) r
    by (simp add: calculatePatternData_def)
qed

subsection \<open>The start values \<open>20 / 30 / 20\<close>\<close>

lemma sqrt_425_between: "20.6155 \<le> sqrt 425" "sqrt 425 \<le> 20.6156"
  by (rule real_le_rsqrt, simp add: power2_eq_square)
    (rule real_le_lsqrt, simp_all add: power2_eq_square)

lemma slantHeight_initial: "slantHeight initialDimensions = sqrt 425"
  by (simp add: slantHeight_def verticalHeight_def rBottom_def rTop_def initialDimensions_def)

lemma LBottom_initial: "LBottom initialDimensions = 3 * sqrt 425"
  by (simp add: LBottom_def slantHeight_initial)
    (simp add: rBottom_def rTop_def initialDimensions_def)

lemma LTop_initial: "LTop initialDimensions = 2 * sqrt 425"
  by (simp add: LTop_def slantHeight_initial)
    (simp add: rBottom_def rTop_def initialDimensions_def)

lemma angle_initial: "angle initialDimensions = 10 * pi / sqrt 425"
  by (simp add: angle_def LBottom_initial) (simp add: rBottom_def initialDimensions_def)

lemma angle_initial_between:
  "1.5235 \<le> angle initialDimensions" "angle initialDimensions \<le> 1.5245"
proof -
  have s: "0 < sqrt (425::real)" by simp
  show "1.5235 \<le> angle initialDimensions"
    unfolding angle_initial using sqrt_425_between(2) pi_between(1) s
    by (simp add: pos_le_divide_eq)
  show "angle initialDimensions \<le> 1.5245"
    unfolding angle_initial using sqrt_425_between(1) pi_between(2) s
    by (simp add: pos_divide_le_eq)
qed

subsection \<open>The loops of the tiler\<close>

lemma colLoop_eq:
  "colLoop rows cols w h row col container =
     container @ map (createPage rows cols w h row) [col..cols - 1]"
proof (induction rows cols w h row col container rule: colLoop.induct)
  case (1 rows cols w h row col container)
  show ?case
  proof (cases "col < cols")
    case True
    have "colLoop rows cols w h row col container =
          colLoop rows cols w h row (col + 1) (container @ [createPage rows cols w h row col])"
      using True by (subst colLoop.simps) simp
    also have "\<dots> = (container @ [createPage rows cols w h row col]) @
                    map (createPage rows cols w h row) [col + 1..cols - 1]"
      by (rule 1[OF True])
    also have "\<dots> = container @ map (createPage rows cols w h row) (col # [col + 1..cols - 1])"
      by simp
    also have "col # [col + 1..cols - 1] = [col..cols - 1]"
      using True by (simp add: upto_rec1)
    finally show ?thesis .
  next
    case False
    then have "colLoop rows cols w h row col container = container"
      by (subst colLoop.simps) simp
    with False show ?thesis by simp
  qed
qed

lemma rowLoop_eq:
  "rowLoop rows cols w h row container =
     container @
     concat (map (\<lambda>r. map (createPage rows cols w h r) [0..cols - 1]) [row..rows - 1])"
proof (induction rows cols w h row container rule: rowLoop.induct)
  case (1 rows cols w h row container)
  show ?case
  proof (cases "row < rows")
    case True
    have "rowLoop rows cols w h row container =
          rowLoop rows cols w h (row + 1) (colLoop rows cols w h row 0 container)"
      using True by (subst rowLoop.simps) simp
    also have "\<dots> = colLoop rows cols w h row 0 container @
                 concat (map (\<lambda>r. map (createPage rows cols w h r) [0..cols - 1])
                           [row + 1..rows - 1])"
      by (rule 1[OF True])
    also have "\<dots> = container @
                 concat (map (\<lambda>r. map (createPage rows cols w h r) [0..cols - 1])
                           (row # [row + 1..rows - 1]))"
      by (simp add: colLoop_eq)
    also have "row # [row + 1..rows - 1] = [row..rows - 1]"
      using True by (simp add: upto_rec1)
    finally show ?thesis .
  next
    case False
    then have "rowLoop rows cols w h row container = container"
      by (subst rowLoop.simps) simp
    with False show ?thesis by simp
  qed
qed

lemma page_in_container:
  "p \<in> set (rowLoop rows cols w h 0 []) \<longleftrightarrow>
     (\<exists>row col. 0 \<le> row \<and> row < rows \<and> 0 \<le> col \<and> col < cols \<and> p = createPage rows cols w h row col)"
proof -
  have "set (rowLoop rows cols w h 0 []) =
        (\<Union>row\<in>{0..rows - 1}. createPage rows cols w h row ` {0..cols - 1})"
    by (simp add: rowLoop_eq)
  also have "p \<in> \<dots> \<longleftrightarrow>
     (\<exists>row col. 0 \<le> row \<and> row < rows \<and> 0 \<le> col \<and> col < cols \<and> p = createPage rows cols w h row col)"
    unfolding UN_iff image_iff atLeastAtMost_iff Bex_def by (intro iff_exI) auto
  finally show ?thesis .
qed

lemma length_container:
  "length (rowLoop rows cols w h 0 []) = nat rows * nat cols"
proof -
  have "length (concat (map (\<lambda>r. map (createPage rows cols w h r) [0..cols - 1]) xs)) = length xs * nat cols" for xs
    by (induction xs) simp_all
  then show ?thesis by (simp add: rowLoop_eq)
qed

text \<open>
  With a pattern whose width and height are numbers and a mounted SVG element,
  \<open>handlePrint\<close> is \<open>printPages\<close> at the pixel sizes of the pattern and of the paper.
\<close>

lemma handlePrint_printPages:
  assumes "patternWidth pd = Some w" "patternHeight pd = Some h"
  shows "handlePrint (Some pd) True paperSize =
           printPages (convertToPx w (patternUnit pd)) (convertToPx h (patternUnit pd))
             (printableWidthPx paperSize) (printableHeightPx paperSize)"
  using assms by (simp add: handlePrint_def)

lemma printable_positive: "0 < printableWidthPx paperSize" "0 < printableHeightPx paperSize"
  by (cases paperSize; simp add: printableWidthPx_def printableHeightPx_def PRINT_MARGIN_IN_def
      PPI_def)+

lemma marks_createPage:
  "set (marks (createPage rows cols w h row col)) =
     (if 0 < row then {Mark Top row (col + 1)} else {}) \<union>
     (if row < rows - 1 then {Mark Bottom (row + 2) (col + 1)} else {}) \<union>
     (if 0 < col then {Mark Left (row + 1) col} else {}) \<union>
     (if col < cols - 1 then {Mark Right (row + 1) (col + 2)} else {})"
  by (simp add: createPage_def)

section \<open>The calculator: drum and taper\<close>

text \<open>
  Claim C5. For every drum input, that is equal top and bottom diameter \<open>d\<close>, and height
  \<open>h\<close>, \<open>calculatePatternData\<close> returns the rectangle of width \<open>pi * d\<close> and height \<open>h\<close>
  with the view box \<open>0 0 width height\<close>. Positivity of \<open>d\<close> and \<open>h\<close> is not needed.
\<close>

theorem drum_rectangle:
  assumes "topDiameter dims = bottomDiameter dims"
  shows "calculatePatternData dims =
           Inr (DrumPatternData (pi * bottomDiameter dims)
                  (ViewBox 0 0 (pi * bottomDiameter dims) (height dims))
                  (pi * bottomDiameter dims) (height dims) dims)"
  using assms by (simp add: calculatePatternData_def Let_def)

theorem drum_rectangle_witness:
  "calculatePatternData
     \<lparr>topDiameter = 30, bottomDiameter = 30, height = 20, unit = Cm, shape = Drum\<rparr> =
   Inr (DrumPatternData (pi * 30) (ViewBox 0 0 (pi * 30) 20) (pi * 30) 20
          \<lparr>topDiameter = 30, bottomDiameter = 30, height = 20, unit = Cm, shape = Drum\<rparr>)"
  using drum_rectangle
    [of "\<lparr>topDiameter = 30, bottomDiameter = 30, height = 20, unit = Cm, shape = Drum\<rparr>"]
  by simp

text \<open>
  Claim C2, as stated: every input whose shape is cone or empire and whose bottom diameter
  is at most the top diameter fails with \<open>InvalidTaper\<close>. The calculator never reads
  \<^verbatim>\<open>dims.shape\<close>: it dispatches on the equality of the diameters, so a cone with equal
  diameters is returned as a drum rectangle.
\<close>

theorem invalid_taper_equal_counterexample:
  "shape \<lparr>topDiameter = 20, bottomDiameter = 20, height = 20, unit = Cm, shape = Cone\<rparr> = Cone
   \<and> bottomDiameter \<lparr>topDiameter = 20, bottomDiameter = 20, height = 20, unit = Cm, shape = Cone\<rparr>
       \<le> topDiameter \<lparr>topDiameter = 20, bottomDiameter = 20, height = 20, unit = Cm, shape = Cone\<rparr>
   \<and> calculatePatternData
       \<lparr>topDiameter = 20, bottomDiameter = 20, height = 20, unit = Cm, shape = Cone\<rparr>
     \<noteq> Inl InvalidTaper"
  by (simp add: calculatePatternData_def Let_def)

text \<open>
  Claim C2, amended: every input whose bottom diameter is strictly smaller than its top
  diameter fails with \<open>InvalidTaper\<close>, whatever its shape field says; in particular
  swapping the diameters of an input with \<open>topDiameter < bottomDiameter\<close> always yields
  \<open>InvalidTaper\<close>.
\<close>

theorem invalid_taper:
  "(bottomDiameter dims < topDiameter dims \<longrightarrow> calculatePatternData dims = Inl InvalidTaper)
   \<and> (topDiameter dims < bottomDiameter dims \<longrightarrow>
        calculatePatternData
          (dims\<lparr>topDiameter := bottomDiameter dims, bottomDiameter := topDiameter dims\<rparr>)
        = Inl InvalidTaper)"
  by (simp add: calculatePatternData_def rBottom_def rTop_def)

theorem invalid_taper_witness:
  "calculatePatternData
     \<lparr>topDiameter = 30, bottomDiameter = 20, height = 20, unit = Cm, shape = Cone\<rparr>
     = Inl InvalidTaper
   \<and> calculatePatternData
       (\<lparr>topDiameter = 20, bottomDiameter = 30, height = 20, unit = Cm, shape = Empire\<rparr>
          \<lparr>topDiameter := 30, bottomDiameter := 20\<rparr>)
     = Inl InvalidTaper"
  using invalid_taper
    [of "\<lparr>topDiameter = 30, bottomDiameter = 20, height = 20, unit = Cm, shape = Cone\<rparr>"]
    invalid_taper
    [of "\<lparr>topDiameter = 20, bottomDiameter = 30, height = 20, unit = Cm, shape = Empire\<rparr>"]
  by simp

section \<open>The calculator: the sector angle\<close>







text \<open>
  Claim C7, as stated: for the input 20 / 30 / 20 the sector angle is about 3.048 rad. The
  angle is at most 1.5245, half of the stated value.
\<close>

theorem scenario_B_counterexample:
  "angle initialDimensions < 1.53 \<and> \<not> \<bar>angle initialDimensions - 3.048\<bar> \<le> 0.0005"
  using angle_initial_between(2) by simp

text \<open>
  Claim C7, amended: for the input 20 / 30 / 20 \<open>calculatePatternData\<close> succeeds with the
  cone record, the slant height is 20.616, the outer radius 61.85, the inner radius 41.23
  and the sector angle 1.524 rad, each to the last digit given, and the large-arc flag is 0.
\<close>

theorem scenario_B:
  "calculatePatternData initialDimensions =
     Inr (ConePatternData (pathD initialDimensions)
            (ViewBox (minX initialDimensions) (minY initialDimensions)
               (coneWidth initialDimensions) (coneHeight initialDimensions))
            (coneWidth initialDimensions) (coneHeight initialDimensions) initialDimensions
            (slantHeight initialDimensions) (pi * 20) (pi * 30))
   \<and> \<bar>slantHeight initialDimensions - 20.616\<bar> \<le> 0.0005
   \<and> \<bar>LBottom initialDimensions - 61.85\<bar> \<le> 0.005
   \<and> \<bar>LTop initialDimensions - 41.23\<bar> \<le> 0.005
   \<and> \<bar>angle initialDimensions - 1.524\<bar> \<le> 0.0005
   \<and> largeArcFlag initialDimensions = 0"
proof -
  have "calculatePatternData initialDimensions =
     Inr (ConePatternData (pathD initialDimensions)
            (ViewBox (minX initialDimensions) (minY initialDimensions)
               (coneWidth initialDimensions) (coneHeight initialDimensions))
            (coneWidth initialDimensions) (coneHeight initialDimensions) initialDimensions
            (slantHeight initialDimensions) (pi * 20) (pi * 30))"
    using cone_result[of initialDimensions] by (simp add: initialDimensions_def)
  moreover have "\<bar>slantHeight initialDimensions - 20.616\<bar> \<le> 0.0005"
    unfolding abs_le_iff slantHeight_initial using sqrt_425_between by simp
  moreover have "\<bar>LBottom initialDimensions - 61.85\<bar> \<le> 0.005"
    unfolding abs_le_iff LBottom_initial using sqrt_425_between by simp
  moreover have "\<bar>LTop initialDimensions - 41.23\<bar> \<le> 0.005"
    unfolding abs_le_iff LTop_initial using sqrt_425_between by simp
  moreover have "\<bar>angle initialDimensions - 1.524\<bar> \<le> 0.0005"
    unfolding abs_le_iff using angle_initial_between by simp
  moreover have "largeArcFlag initialDimensions = 0"
    using angle_initial_between(2) pi_between(1) by (simp add: largeArcFlag_def)
  ultimately show ?thesis by blast
qed

section \<open>The calculator: the bounding box\<close>

text \<open>
  For an angle below \<open>pi\<close> the extremes of the five points are the extremes of the whole
  boundary, and the view box is the smallest box around it. From \<open>pi\<close> on the four
  corner points all have an \<open>x\<close> of at most 0, and the view box ends at or left of the
  origin, while the outer arc passes through \<open>(LBottom, 0)\<close>.
\<close>

lemma radii_order:
  assumes "0 \<le> topDiameter d" "topDiameter d < bottomDiameter d"
  shows "0 \<le> LTop d" "LTop d < LBottom d" "0 < angle d"
proof -
  have r: "rTop d < rBottom d" "0 \<le> rTop d" "0 < rBottom d"
    using assms by (simp_all add: rTop_def rBottom_def)
  have s: "0 < slantHeight d" by (rule slantHeight_pos[OF r(1)])
  show "0 \<le> LTop d" unfolding LTop_def using r s by simp
  show "LTop d < LBottom d" using LBottom_minus_LTop[of d] r s by simp
  have "0 < LBottom d" unfolding LBottom_def using r s by simp
  then show "0 < angle d" unfolding angle_def using r by simp
qed

lemma small_sector_extremes:
  assumes "0 \<le> topDiameter d" "topDiameter d < bottomDiameter d" "angle d < pi"
  shows "minX d = LTop d * cos (endAngle d)" "maxX d = LBottom d"
    "minY d = - (LBottom d * sin (endAngle d))" "maxY d = LBottom d * sin (endAngle d)"
proof -
  note ro = radii_order[OF assms(1,2)]
  have a: "0 < endAngle d" "endAngle d < pi / 2"
    using ro(3) assms(3) by (simp_all add: endAngle_def)
  have c: "0 < cos (endAngle d)" "cos (endAngle d) \<le> 1"
    using a by (simp_all add: cos_gt_zero)
  have s: "0 < sin (endAngle d)"
    using a by (intro sin_gt_zero) simp_all
  have st: "startAngle d = - endAngle d" by (simp add: startAngle_def endAngle_def)
  have x1: "LTop d * cos (endAngle d) \<le> LBottom d * cos (endAngle d)"
    using ro c by (intro mult_right_mono) simp_all
  have x2: "LBottom d * cos (endAngle d) \<le> LBottom d"
    using ro c by (intro mult_left_le) simp_all
  have y1: "LTop d * sin (endAngle d) \<le> LBottom d * sin (endAngle d)"
    using ro s by (intro mult_right_mono) simp_all
  have y0: "0 \<le> LTop d * sin (endAngle d)" "0 < LBottom d * sin (endAngle d)"
    using ro s by simp_all
  show "minX d = LTop d * cos (endAngle d)"
    using x1 x2 assms(3) by (simp add: minX_def allX_def p1x_def p2x_def p3x_def p4x_def st)
  show "maxX d = LBottom d"
    using x1 x2 assms(3) by (simp add: maxX_def allX_def p1x_def p2x_def p3x_def p4x_def st)
  show "minY d = - (LBottom d * sin (endAngle d))"
    using y1 y0 assms(3) by (simp add: minY_def allY_def p1y_def p2y_def p3y_def p4y_def st)
  show "maxY d = LBottom d * sin (endAngle d)"
    using y1 y0 assms(3) by (simp add: maxY_def allY_def p1y_def p2y_def p3y_def p4y_def st)
qed


lemma sector_point_bounds:
  assumes L: "0 \<le> lt" "lt \<le> r" "r \<le> lb"
    and al: "0 < al" "al < pi / 2" and a: "- al \<le> a" "a \<le> al"
  shows "lt * cos al \<le> r * cos a" "r * cos a \<le> lb"
    "- (lb * sin al) \<le> r * sin a" "r * sin a \<le> lb * sin al"
proof -
  have ca: "cos al \<le> cos a"
  proof -
    have "cos al \<le> cos \<bar>a\<bar>"
      using al a by (intro cos_monotone_0_pi_le) simp_all
    then show ?thesis by simp
  qed
  have c0: "0 \<le> cos al" using al by (intro cos_ge_zero) simp_all
  have s0: "0 \<le> sin al" using al by (intro sin_ge_zero) simp_all
  have su: "sin a \<le> sin al"
    using al a by (intro sin_monotone_2pi_le) simp_all
  have "sin (- al) \<le> sin a"
    using al a by (intro sin_monotone_2pi_le) simp_all
  then have sl: "- sin al \<le> sin a" by simp
  have r0: "0 \<le> r" "0 \<le> lb" using L by simp_all
  show "lt * cos al \<le> r * cos a"
    using L ca c0 r0 by (intro mult_mono) simp_all
  have "r * cos a \<le> r * 1"
    using r0 by (intro mult_left_mono) simp_all
  then show "r * cos a \<le> lb" using L by simp
  have abs: "\<bar>sin a\<bar> \<le> sin al" using su sl by simp
  have "\<bar>r * sin a\<bar> = r * \<bar>sin a\<bar>" using r0 by (simp add: abs_mult)
  also have "\<dots> \<le> lb * sin al"
    using L abs r0 by (intro mult_mono) simp_all
  finally have "\<bar>r * sin a\<bar> \<le> lb * sin al" .
  then show "- (lb * sin al) \<le> r * sin a" "r * sin a \<le> lb * sin al"
    by simp_all
qed

lemma bounding_box_small_sector:
  assumes "0 \<le> topDiameter d" "topDiameter d < bottomDiameter d" "angle d < pi"
  shows "tightBox (ViewBox (minX d) (minY d) (coneWidth d) (coneHeight d)) (sectorBoundary d)"
proof -
  note ro = radii_order[OF assms(1,2)]
  note ex = small_sector_extremes[OF assms]
  have al: "0 < endAngle d" "endAngle d < pi / 2"
    using ro(3) assms(3) by (simp_all add: endAngle_def)
  have st: "startAngle d = - endAngle d" by (simp add: startAngle_def endAngle_def)
  have right: "minX d + coneWidth d = LBottom d"
    and bottom: "minY d + coneHeight d = LBottom d * sin (endAngle d)"
    using ex(2,4) by (simp_all add: coneWidth_def coneHeight_def)
  have inside: "inViewBox (ViewBox (minX d) (minY d) (coneWidth d) (coneHeight d)) p"
    if "p \<in> sectorBoundary d" for p
  proof -
    from that obtain r a where p: "p = (r * cos a, r * sin a)"
      and on: "((r = LTop d \<or> r = LBottom d) \<and> startAngle d \<le> a \<and> a \<le> endAngle d)
             \<or> (LTop d \<le> r \<and> r \<le> LBottom d \<and> (a = startAngle d \<or> a = endAngle d))"
      unfolding sectorBoundary_def by blast
    have ra: "LTop d \<le> r" "r \<le> LBottom d" "- endAngle d \<le> a" "a \<le> endAngle d"
      using on ro al unfolding st by auto
    show ?thesis
      unfolding p inViewBox.simps right bottom unfolding ex(1,3)
      using sector_point_bounds[OF ro(1) ra(1,2) al ra(3,4)] by simp
  qed
  have p4: "(LTop d * cos (endAngle d), LTop d * sin (endAngle d)) \<in> sectorBoundary d"
    and p3: "(LBottom d * cos (endAngle d), LBottom d * sin (endAngle d)) \<in> sectorBoundary d"
    and p2: "(LBottom d * cos (startAngle d), LBottom d * sin (startAngle d)) \<in> sectorBoundary d"
    and apex: "(LBottom d * cos 0, LBottom d * sin 0) \<in> sectorBoundary d"
    using al unfolding sectorBoundary_def st by fastforce+
  have "\<exists>p \<in> sectorBoundary d. fst p = minX d"
    unfolding ex(1) by (intro bexI[OF _ p4]) simp
  moreover have "\<exists>p \<in> sectorBoundary d. fst p = minX d + coneWidth d"
    unfolding right by (intro bexI[OF _ apex]) simp
  moreover have "\<exists>p \<in> sectorBoundary d. snd p = minY d"
    unfolding ex(3) by (intro bexI[OF _ p2]) (simp add: st)
  moreover have "\<exists>p \<in> sectorBoundary d. snd p = minY d + coneHeight d"
    unfolding bottom by (intro bexI[OF _ p3]) simp
  ultimately show ?thesis using inside by simp
qed


lemma bounding_box_wide_sector:
  assumes "0 \<le> topDiameter d" "topDiameter d < bottomDiameter d" "pi \<le> angle d"
  shows "(LBottom d, 0) \<in> sectorBoundary d"
    and "minX d + coneWidth d \<le> 0" and "0 < LBottom d"
    and "\<not> inViewBox (ViewBox (minX d) (minY d) (coneWidth d) (coneHeight d)) (LBottom d, 0)"
proof -
  note ro = radii_order[OF assms(1,2)]
  have r: "rTop d < rBottom d" and b: "bottomDiameter d \<noteq> 0"
    using assms(1,2) by (simp_all add: rTop_def rBottom_def)
  have al: "pi / 2 \<le> endAngle d" "endAngle d \<le> pi"
    using assms(3) angle_le_two_pi[OF r b] by (simp_all add: endAngle_def)
  have st: "startAngle d = - endAngle d" by (simp add: startAngle_def endAngle_def)
  have "cos (endAngle d) \<le> cos (pi / 2)"
    using al by (intro cos_monotone_0_pi_le) simp_all
  then have c: "cos (endAngle d) \<le> 0" by simp
  have x: "LTop d * cos (endAngle d) \<le> 0" "LBottom d * cos (endAngle d) \<le> 0"
    using ro c by (simp_all add: mult_le_0_iff)
  have "\<not> angle d < pi" using assms(3) by simp
  then have "maxX d \<le> 0"
    using x by (simp add: maxX_def allX_def p1x_def p2x_def p3x_def p4x_def st)
  then show right: "minX d + coneWidth d \<le> 0" by (simp add: coneWidth_def)
  show pos: "0 < LBottom d" using ro by simp
  show "\<not> inViewBox (ViewBox (minX d) (minY d) (coneWidth d) (coneHeight d)) (LBottom d, 0)"
    using right pos by simp
  have "(LBottom d, 0) = (LBottom d * cos 0, LBottom d * sin 0)" by simp
  moreover have "startAngle d \<le> 0 \<and> 0 \<le> endAngle d"
    using al unfolding st by simp
  ultimately show "(LBottom d, 0) \<in> sectorBoundary d"
    unfolding sectorBoundary_def by blast
qed

text \<open>
  Claim C1 says that the view box is the smallest axis-parallel box around the whole
  boundary, also for an angle of \<open>pi\<close> or more, where only the four corner points enter
  the extremes. That holds below \<open>pi\<close> (\<open>bounding_box_small_sector\<close>) and fails from
  \<open>pi\<close> on (\<open>bounding_box_wide_sector\<close>). The input with top diameter 2, bottom diameter 8 and height 4 has the slant
  height 5, the radii 5/3 and 20/3 and the angle \<open>6 * pi / 5\<close>. Its four corner points all
  have a negative \<open>x\<close>, so the view box ends left of the origin, while the outer arc passes
  through the point \<open>(20/3, 0)\<close>: the view box does not contain the boundary.
\<close>

theorem bounding_box_misses_outer_arc:
  "calculatePatternData
     \<lparr>topDiameter = 2, bottomDiameter = 8, height = 4, unit = Cm, shape = Cone\<rparr> =
   Inr (ConePatternData
     (pathD \<lparr>topDiameter = 2, bottomDiameter = 8, height = 4, unit = Cm, shape = Cone\<rparr>)
     (ViewBox
       (minX \<lparr>topDiameter = 2, bottomDiameter = 8, height = 4, unit = Cm, shape = Cone\<rparr>)
       (minY \<lparr>topDiameter = 2, bottomDiameter = 8, height = 4, unit = Cm, shape = Cone\<rparr>)
       (coneWidth \<lparr>topDiameter = 2, bottomDiameter = 8, height = 4, unit = Cm, shape = Cone\<rparr>)
       (coneHeight \<lparr>topDiameter = 2, bottomDiameter = 8, height = 4, unit = Cm, shape = Cone\<rparr>))
     (coneWidth \<lparr>topDiameter = 2, bottomDiameter = 8, height = 4, unit = Cm, shape = Cone\<rparr>)
     (coneHeight \<lparr>topDiameter = 2, bottomDiameter = 8, height = 4, unit = Cm, shape = Cone\<rparr>)
     \<lparr>topDiameter = 2, bottomDiameter = 8, height = 4, unit = Cm, shape = Cone\<rparr>
     5 (pi * 2) (pi * 8))
   \<and> angle \<lparr>topDiameter = 2, bottomDiameter = 8, height = 4, unit = Cm, shape = Cone\<rparr>
       = 6 * pi / 5
   \<and> (20 / 3, 0)
       \<in> sectorBoundary
           \<lparr>topDiameter = 2, bottomDiameter = 8, height = 4, unit = Cm, shape = Cone\<rparr>
   \<and> minX \<lparr>topDiameter = 2, bottomDiameter = 8, height = 4, unit = Cm, shape = Cone\<rparr>
       + coneWidth \<lparr>topDiameter = 2, bottomDiameter = 8, height = 4, unit = Cm, shape = Cone\<rparr>
       < 0
   \<and> \<not> inViewBox
       (ViewBox
         (minX \<lparr>topDiameter = 2, bottomDiameter = 8, height = 4, unit = Cm, shape = Cone\<rparr>)
         (minY \<lparr>topDiameter = 2, bottomDiameter = 8, height = 4, unit = Cm, shape = Cone\<rparr>)
         (coneWidth \<lparr>topDiameter = 2, bottomDiameter = 8, height = 4, unit = Cm, shape = Cone\<rparr>)
         (coneHeight \<lparr>topDiameter = 2, bottomDiameter = 8, height = 4, unit = Cm, shape = Cone\<rparr>))
       (20 / 3, 0)"
proof -
  let ?d = "\<lparr>topDiameter = 2, bottomDiameter = 8, height = 4, unit = Cm, shape = Cone\<rparr>"
  have "sqrt 25 = (5::real)" by (rule real_sqrt_unique) simp_all
  then have s: "slantHeight ?d = 5"
    by (simp add: slantHeight_def verticalHeight_def rTop_def rBottom_def)
  have t: "LTop ?d = 5/3" unfolding LTop_def s
    by (simp add: rTop_def rBottom_def)
  have b: "LBottom ?d = 20/3" unfolding LBottom_def s
    by (simp add: rTop_def rBottom_def)
  have a: "angle ?d = 6 * pi / 5" unfolding angle_def b
    by (simp add: rBottom_def)
  have "cos (3 * pi / 5) < cos (pi / 2)"
    by (rule cos_monotone_0_pi) simp_all
  then have c: "cos (3 * pi / 5) < 0" by simp
  have mx: "maxX ?d < 0"
    using c
    by (simp add: maxX_def allX_def p1x_def p2x_def p3x_def p4x_def startAngle_def
        endAngle_def s t b a mult_less_0_iff)
  have res: "calculatePatternData ?d =
       Inr (ConePatternData (pathD ?d)
             (ViewBox (minX ?d) (minY ?d) (coneWidth ?d) (coneHeight ?d))
             (coneWidth ?d) (coneHeight ?d) ?d 5 (pi * 2) (pi * 8))"
    using cone_result[of ?d] s by simp
  have right: "minX ?d + coneWidth ?d < 0"
    using mx by (simp add: coneWidth_def)
  then have out: "\<not> inViewBox (ViewBox (minX ?d) (minY ?d) (coneWidth ?d) (coneHeight ?d))
                     (20 / 3, 0)"
    by simp
  have "(20 / 3, 0) = (LBottom ?d * cos 0, LBottom ?d * sin 0)"
    by (simp add: b)
  moreover have "startAngle ?d \<le> 0 \<and> 0 \<le> endAngle ?d"
    by (simp add: startAngle_def endAngle_def a)
  ultimately have mem: "(20 / 3, 0) \<in> sectorBoundary ?d"
    unfolding sectorBoundary_def by blast
  show ?thesis using res a mem right out by blast
qed

section \<open>The tiler\<close>



text \<open>
  Claim C9. In a grid of \<open>rows\<close> by \<open>cols\<close> pages the page at \<open>(row, col)\<close> is printed and
  carries a Top mark iff \<open>row > 0\<close>, naming the page \<open>(row - 1, col)\<close>, a Bottom mark iff
  \<open>row < rows - 1\<close>, naming \<open>(row + 1, col)\<close>, a Left mark iff \<open>col > 0\<close>, naming
  \<open>(row, col - 1)\<close>, and a Right mark iff \<open>col < cols - 1\<close>, naming \<open>(row, col + 1)\<close>.
  Every mark is matched: the page it names is printed and carries a mark on the opposite
  edge that names the page \<open>(row, col)\<close>.
\<close>

theorem join_marks:
  assumes "0 \<le> row" "row < rows" "0 \<le> col" "col < cols"
  shows "createPage rows cols w h row col \<in> set (rowLoop rows cols w h 0 [])
    \<and> (Mark Top r c \<in> set (marks (createPage rows cols w h row col)) \<longleftrightarrow>
          0 < row \<and> markTarget (Mark Top r c) = (row - 1, col))
    \<and> (Mark Bottom r c \<in> set (marks (createPage rows cols w h row col)) \<longleftrightarrow>
          row < rows - 1 \<and> markTarget (Mark Bottom r c) = (row + 1, col))
    \<and> (Mark Left r c \<in> set (marks (createPage rows cols w h row col)) \<longleftrightarrow>
          0 < col \<and> markTarget (Mark Left r c) = (row, col - 1))
    \<and> (Mark Right r c \<in> set (marks (createPage rows cols w h row col)) \<longleftrightarrow>
          col < cols - 1 \<and> markTarget (Mark Right r c) = (row, col + 1))
    \<and> (\<forall>m \<in> set (marks (createPage rows cols w h row col)).
          createPage rows cols w h (fst (markTarget m)) (snd (markTarget m))
            \<in> set (rowLoop rows cols w h 0 [])
          \<and> (\<exists>m' \<in> set (marks (createPage rows cols w h (fst (markTarget m)) (snd (markTarget m)))).
                markEdge m' = opposite (markEdge m) \<and> markTarget m' = (row, col)))"
proof -
  let ?p = "createPage rows cols w h row col"
  have inC: "?p \<in> set (rowLoop rows cols w h 0 [])"
    using assms unfolding page_in_container by blast
  have top: "Mark Top r c \<in> set (marks ?p) \<longleftrightarrow> 0 < row \<and> markTarget (Mark Top r c) = (row - 1, col)"
    unfolding marks_createPage by auto
  have bottom: "Mark Bottom r c \<in> set (marks ?p) \<longleftrightarrow>
          row < rows - 1 \<and> markTarget (Mark Bottom r c) = (row + 1, col)"
    unfolding marks_createPage by auto
  have left: "Mark Left r c \<in> set (marks ?p) \<longleftrightarrow> 0 < col \<and> markTarget (Mark Left r c) = (row, col - 1)"
    unfolding marks_createPage by auto
  have right: "Mark Right r c \<in> set (marks ?p) \<longleftrightarrow>
          col < cols - 1 \<and> markTarget (Mark Right r c) = (row, col + 1)"
    unfolding marks_createPage by auto
  have sym: "createPage rows cols w h (fst (markTarget m)) (snd (markTarget m))
            \<in> set (rowLoop rows cols w h 0 [])
          \<and> (\<exists>m' \<in> set (marks (createPage rows cols w h (fst (markTarget m)) (snd (markTarget m)))).
                markEdge m' = opposite (markEdge m) \<and> markTarget m' = (row, col))"
    if m: "m \<in> set (marks ?p)" for m
  proof -
    consider (t) "0 < row" "m = Mark Top row (col + 1)"
      | (b) "row < rows - 1" "m = Mark Bottom (row + 2) (col + 1)"
      | (l) "0 < col" "m = Mark Left (row + 1) col"
      | (r) "col < cols - 1" "m = Mark Right (row + 1) (col + 2)"
      using m unfolding marks_createPage by (auto split: if_splits)
    then show ?thesis
    proof cases
      case t
      have tgt: "markTarget m = (row - 1, col)" and edge: "opposite (markEdge m) = markEdge (Mark Bottom (row + 1) (col + 1))"
        using t by simp_all
      have mk: "Mark Bottom (row + 1) (col + 1) \<in> set (marks (createPage rows cols w h (row - 1) (col)))"
        using assms t unfolding marks_createPage by simp
      have pg: "createPage rows cols w h (row - 1) (col) \<in> set (rowLoop rows cols w h 0 [])"
        using assms t unfolding page_in_container
        by (intro exI[of _ "row - 1"] exI[of _ "col"]) simp
      have ret: "markTarget (Mark Bottom (row + 1) (col + 1)) = (row, col)" by simp
      show ?thesis unfolding tgt fst_conv snd_conv edge
        using pg mk ret by (intro conjI bexI[of _ "Mark Bottom (row + 1) (col + 1)"]) simp_all
    next
      case b
      have tgt: "markTarget m = (row + 1, col)" and edge: "opposite (markEdge m) = markEdge (Mark Top (row + 1) (col + 1))"
        using b by simp_all
      have mk: "Mark Top (row + 1) (col + 1) \<in> set (marks (createPage rows cols w h (row + 1) (col)))"
        using assms b unfolding marks_createPage by simp
      have pg: "createPage rows cols w h (row + 1) (col) \<in> set (rowLoop rows cols w h 0 [])"
        using assms b unfolding page_in_container
        by (intro exI[of _ "row + 1"] exI[of _ "col"]) simp
      have ret: "markTarget (Mark Top (row + 1) (col + 1)) = (row, col)" by simp
      show ?thesis unfolding tgt fst_conv snd_conv edge
        using pg mk ret by (intro conjI bexI[of _ "Mark Top (row + 1) (col + 1)"]) simp_all
    next
      case l
      have tgt: "markTarget m = (row, col - 1)" and edge: "opposite (markEdge m) = markEdge (Mark Right (row + 1) (col + 1))"
        using l by simp_all
      have mk: "Mark Right (row + 1) (col + 1) \<in> set (marks (createPage rows cols w h (row) (col - 1)))"
        using assms l unfolding marks_createPage by simp
      have pg: "createPage rows cols w h (row) (col - 1) \<in> set (rowLoop rows cols w h 0 [])"
        using assms l unfolding page_in_container
        by (intro exI[of _ "row"] exI[of _ "col - 1"]) simp
      have ret: "markTarget (Mark Right (row + 1) (col + 1)) = (row, col)" by simp
      show ?thesis unfolding tgt fst_conv snd_conv edge
        using pg mk ret by (intro conjI bexI[of _ "Mark Right (row + 1) (col + 1)"]) simp_all
    next
      case r
      have tgt: "markTarget m = (row, col + 1)" and edge: "opposite (markEdge m) = markEdge (Mark Left (row + 1) (col + 1))"
        using r by simp_all
      have mk: "Mark Left (row + 1) (col + 1) \<in> set (marks (createPage rows cols w h (row) (col + 1)))"
        using assms r unfolding marks_createPage by simp
      have pg: "createPage rows cols w h (row) (col + 1) \<in> set (rowLoop rows cols w h 0 [])"
        using assms r unfolding page_in_container
        by (intro exI[of _ "row"] exI[of _ "col + 1"]) simp
      have ret: "markTarget (Mark Left (row + 1) (col + 1)) = (row, col)" by simp
      show ?thesis unfolding tgt fst_conv snd_conv edge
        using pg mk ret by (intro conjI bexI[of _ "Mark Left (row + 1) (col + 1)"]) simp_all
    qed
  qed
  show ?thesis using inC top bottom left right sym by blast
qed

theorem join_marks_witness:
  "Mark Right 1 3 \<in> set (marks (createPage 2 3 100 100 0 1))
   \<and> markTarget (Mark Right 1 3) = (0, 2)
   \<and> Mark Left 1 2 \<in> set (marks (createPage 2 3 100 100 0 2))
   \<and> markTarget (Mark Left 1 2) = (0, 1)
   \<and> Mark Top 1 2 \<notin> set (marks (createPage 2 3 100 100 0 1))
   \<and> createPage 2 3 100 100 0 1 \<in> set (rowLoop 2 3 100 100 0 [])"
  using join_marks[of 0 2 1 3 100 100 1 3] join_marks[of 0 2 2 3 100 100 1 2]
    join_marks[of 0 2 1 3 100 100 1 2]
  by simp

text \<open>
  Claim C10. When the grid has more than 50 pages the tiler alerts the too-large message
  and prints nothing; otherwise it prints the complete layout: one page for every row and
  column of the grid, row by row, \<open>rows * cols\<close> pages in all.
\<close>

theorem safety_ceiling:
  "(50 < gridCols W pageW * gridRows H pageH \<longrightarrow>
      printPages W H pageW pageH = PatternTooLarge
      \<and> (\<forall>pages. printPages W H pageW pageH \<noteq> Printed pages))
   \<and> (gridCols W pageW * gridRows H pageH \<le> 50 \<longrightarrow>
      printPages W H pageW pageH =
        Printed (concat (map (\<lambda>row. map (createPage (gridRows H pageH) (gridCols W pageW)
                                              pageW pageH row)
                                        [0..gridCols W pageW - 1])
                           [0..gridRows H pageH - 1]))
      \<and> (\<exists>pages. printPages W H pageW pageH = Printed pages
            \<and> length pages = nat (gridRows H pageH) * nat (gridCols W pageW)))"
proof -
  have big: "printPages W H pageW pageH = PatternTooLarge
      \<and> (\<forall>pages. printPages W H pageW pageH \<noteq> Printed pages)"
    if "50 < gridCols W pageW * gridRows H pageH"
    using that by (simp add: printPages_def Let_def PatternTooLarge_def)
  have small: "printPages W H pageW pageH =
        Printed (rowLoop (gridRows H pageH) (gridCols W pageW) pageW pageH 0 [])"
    if "gridCols W pageW * gridRows H pageH \<le> 50"
    using that by (simp add: printPages_def Let_def)
  show ?thesis
    using big small rowLoop_eq[of "gridRows H pageH" "gridCols W pageW" pageW pageH 0 "[]"]
      length_container[of "gridRows H pageH" "gridCols W pageW" pageW pageH]
    by (simp add: PatternTooLarge_def)
qed

theorem safety_ceiling_witness:
  "printPages 8000 8000 1000 1000 = PatternTooLarge
   \<and> printPages 1500 900 1000 1000 =
       Printed [createPage 1 2 1000 1000 0 0, createPage 1 2 1000 1000 0 1]"
proof -
  have g: "gridCols 8000 1000 = 8" "gridRows 8000 1000 = 8" "gridCols 1500 1000 = 2" "gridRows 900 1000 = 1"
    by (simp_all add: gridCols_def gridRows_def)
  have u: "[0..1] = [0, 1::int]" "[0..0] = [0::int]" by (simp_all add: upto_rec1)
  show ?thesis
    using safety_ceiling[of 8000 1000 8000 1000] safety_ceiling[of 1500 1000 900 1000]
    by (simp add: g u)
qed

end
